theory Spec2Isabelle
  imports Complex_Main "HOL-Library.Sublist"
begin

section \<open>Python strings\<close>

text \<open>
  A Python \<open>str\<close> is a sequence of Unicode code points, so it is modelled as a list of
  natural numbers. \<open>str\<close> embeds an ASCII literal; letters outside ASCII are written
  as their code points (for example 7867 is the letter e with hook above).
\<close>

type_synonym pystr = "nat list"

definition str :: "string \<Rightarrow> pystr" where
  "str s = map of_char s"

text \<open>The code points for which \<open>str.isspace\<close> holds; \<open>split()\<close> and \<open>strip()\<close> use them.\<close>

definition is_space :: "nat \<Rightarrow> bool" where
  "is_space c \<longleftrightarrow>
     (9 \<le> c \<and> c \<le> 13) \<or> (28 \<le> c \<and> c \<le> 32) \<or> c = 133 \<or> c = 160 \<or> c = 5760 \<or>
     (8192 \<le> c \<and> c \<le> 8202) \<or> c = 8232 \<or> c = 8233 \<or> c = 8239 \<or> c = 8287 \<or> c = 12288"

text \<open>
  \<open>str.lower\<close>, one code point at a time. The table is the Unicode one on Basic Latin,
  Latin-1, Latin Extended-A, the two horned letters of Latin Extended-B and Latin
  Extended Additional, which together hold the Vietnamese alphabet, and on the Kelvin
  and Angstrom signs, the two other code points whose lower case is one of these
  letters; every other code point is left as it is.
\<close>

definition lower_cp :: "nat \<Rightarrow> pystr" where
  "lower_cp c =
     (if 65 \<le> c \<and> c \<le> 90 then [c + 32]
      else if 192 \<le> c \<and> c \<le> 222 \<and> c \<noteq> 215 then [c + 32]
      else if c = 304 then [105, 775]
      else if c = 376 then [255]
      else if even c \<and> ((256 \<le> c \<and> c \<le> 311) \<or> (330 \<le> c \<and> c \<le> 375)) then [c + 1]
      else if odd c \<and> ((313 \<le> c \<and> c \<le> 328) \<or> (377 \<le> c \<and> c \<le> 382)) then [c + 1]
      else if c = 416 \<or> c = 431 then [c + 1]
      else if c = 7838 then [223]
      else if c = 8490 then [107]
      else if c = 8491 then [229]
      else if even c \<and> ((7680 \<le> c \<and> c \<le> 7829) \<or> (7840 \<le> c \<and> c \<le> 7935)) then [c + 1]
      else [c])"

definition lower :: "pystr \<Rightarrow> pystr" where
  "lower s = concat (map lower_cp s)"

definition strip :: "pystr \<Rightarrow> pystr" where
  "strip s = rev (dropWhile is_space (rev (dropWhile is_space s)))"

text \<open>\<open>s.replace(old, new)\<close> for one-character \<open>old\<close> and \<open>new\<close>.\<close>

definition replace_char :: "nat \<Rightarrow> nat \<Rightarrow> pystr \<Rightarrow> pystr" where
  "replace_char old new s = map (\<lambda>c. if c = old then new else c) s"

text \<open>
  \<open>s.split()\<close> without a separator: the maximal runs of non-space code points, no
  empty word. The first argument is the word read so far.
\<close>

fun split_words :: "pystr \<Rightarrow> pystr \<Rightarrow> pystr list" where
  "split_words cur [] = (if cur = [] then [] else [cur])"
| "split_words cur (c # cs) =
     (if is_space c then (if cur = [] then split_words [] cs else cur # split_words [] cs)
      else split_words (cur @ [c]) cs)"

definition py_split :: "pystr \<Rightarrow> pystr list" where
  "py_split s = split_words [] s"

text \<open>\<open>s.split(sep)\<close> for a one-character separator: empty pieces are kept.\<close>

fun split_at :: "nat \<Rightarrow> pystr \<Rightarrow> pystr \<Rightarrow> pystr list" where
  "split_at sep cur [] = [cur]"
| "split_at sep cur (c # cs) =
     (if c = sep then cur # split_at sep [] cs else split_at sep (cur @ [c]) cs)"

text \<open>\<open>str(n)\<close> for an integer: decimal digits, a minus sign when negative.\<close>

fun str_of_nat :: "nat \<Rightarrow> pystr" where
  "str_of_nat n = (if n < 10 then [48 + n] else str_of_nat (n div 10) @ [48 + n mod 10])"

declare str_of_nat.simps [simp del]

definition str_of_int :: "int \<Rightarrow> pystr" where
  "str_of_int i = (if i < 0 then 45 # str_of_nat (nat (- i)) else str_of_nat (nat i))"

text \<open>\<open>d.get(key, default)\<close> on a dictionary.\<close>

definition dict_get :: "('k \<rightharpoonup> 'v) \<Rightarrow> 'k \<Rightarrow> 'v \<Rightarrow> 'v" where
  "dict_get d k dflt = (case d k of Some v \<Rightarrow> v | None \<Rightarrow> dflt)"


section \<open>Input processing: \<open>normalize_filters\<close>\<close>

record filters =
  filter_budget :: pystr
  filter_type :: pystr
  filter_tags :: "pystr list"

definition budget_map :: "pystr \<rightharpoonup> pystr" where
  "budget_map = map_of
     [(str ''r'' @ [7867], str ''low''),
      (str ''gi'' @ [225] @ str '' r'' @ [7867], str ''low''),
      (str ''cheap'', str ''low''),
      (str ''b'' @ [236] @ str ''nh th'' @ [432, 7901] @ str ''ng'', str ''medium''),
      (str ''trung b'' @ [236] @ str ''nh'', str ''medium''),
      (str ''normal'', str ''medium''),
      (str ''cao'', str ''high''),
      ([273, 7855] @ str ''t'', str ''high''),
      (str ''sang tr'' @ [7885] @ str ''ng'', str ''high''),
      (str ''luxury'', str ''high'')]"

definition type_map :: "pystr \<rightharpoonup> pystr" where
  "type_map = map_of
     [(str ''homestay'', str ''guest_house''),
      (str ''nh'' @ [224] @ str '' ngh'' @ [7881], str ''guest_house''),
      (str ''kh'' @ [225] @ str ''ch s'' @ [7841] @ str ''n'', str ''hotel''),
      (str ''hotel'', str ''hotel''),
      (str ''resort'', str ''resort''),
      (str ''villa'', str ''chalet''),
      (str ''bi'' @ [7879] @ str ''t th'' @ [7921], str ''chalet''),
      (str ''hostel'', str ''hostel''),
      (str ''k'' @ [253] @ str '' t'' @ [250] @ str ''c x'' @ [225], str ''hostel'')]"

definition ambiance_map :: "pystr \<rightharpoonup> pystr" where
  "ambiance_map = map_of
     [(str ''y'' @ [234] @ str ''n t'' @ [297] @ str ''nh'', str ''quiet''),
      (str ''quiet'', str ''quiet''),
      (str ''peaceful'', str ''quiet''),
      (str ''s'' @ [244] @ str ''i '' @ [273, 7897] @ str ''ng'', str ''lively''),
      (str ''lively'', str ''lively''),
      (str ''vibrant'', str ''lively''),
      (str ''g'' @ [7847] @ str ''n bi'' @ [7875] @ str ''n'', str ''beachfront''),
      (str ''beach'', str ''beachfront''),
      (str ''beachfront'', str ''beachfront''),
      (str ''view '' @ [273, 7865] @ str ''p'', str ''scenic''),
      (str ''scenic'', str ''scenic''),
      (str ''gia '' @ [273, 236] @ str ''nh'', str ''family''),
      (str ''family'', str ''family''),
      (str ''romantic'', str ''romantic''),
      (str ''l'' @ [227] @ str ''ng m'' @ [7841] @ str ''n'', str ''romantic'')]"

text \<open>
  The loop over the words of the ambiance text: a word whose lower-case form is a key
  of \<open>ambiance_map\<close>, with a non-empty value not yet in \<open>tags\<close>, appends that value.
\<close>

fun collect_tags :: "pystr list \<Rightarrow> pystr list \<Rightarrow> pystr list" where
  "collect_tags [] tags = tags"
| "collect_tags (word # words) tags =
     (case ambiance_map (lower word) of
        None \<Rightarrow> collect_tags words tags
      | Some tag \<Rightarrow>
          if tag \<noteq> [] \<and> tag \<notin> set tags then collect_tags words (tags @ [tag])
          else collect_tags words tags)"

definition normalize_filters :: "pystr \<Rightarrow> pystr \<Rightarrow> pystr \<Rightarrow> filters" where
  "normalize_filters budget_text type_text ambiance_text =
     (let budget_tier = dict_get budget_map (strip (lower budget_text)) (str ''medium'');
          acc_type = dict_get type_map (strip (lower type_text)) (str ''guest_house'');
          tags =
            (if ambiance_text \<noteq> [] \<and> strip ambiance_text \<noteq> []
             then collect_tags (map strip (py_split (replace_char 44 32 ambiance_text))) []
             else [])
      in \<lparr>filter_budget = budget_tier, filter_type = acc_type, filter_tags = tags\<rparr>)"

record geo_data =
  geo_name :: pystr
  geo_lat :: real
  geo_lon :: real

record search_request =
  req_location_name :: pystr
  req_lat :: real
  req_lon :: real
  req_budget :: pystr
  req_type :: pystr
  req_tags :: "pystr list"
  req_radius :: int
  req_max_results :: int

definition build_search_request :: "geo_data \<Rightarrow> filters \<Rightarrow> search_request" where
  "build_search_request geo flt =
     \<lparr>req_location_name = geo_name geo, req_lat = geo_lat geo, req_lon = geo_lon geo,
      req_budget = filter_budget flt, req_type = filter_type flt, req_tags = filter_tags flt,
      req_radius = 5000, req_max_results = 10\<rparr>"


section \<open>Numbers\<close>

text \<open>
  A Python float is a double. It is modelled by the real number it stands for;
  infinities and NaN are not values of the model. An operation on doubles gives the
  double nearest to the exact result, a tie going to the even neighbour:
  \<open>round_double\<close>, which rounds to 53 binary digits, or to a multiple of \<open>2 ^ -1074\<close>
  below \<open>2 ^ -1022\<close>. The exponent has no upper bound here: the sums of the program
  stay far below the largest double.
\<close>

definition round_half_even :: "real \<Rightarrow> int" where
  "round_half_even x =
     (let f = \<lfloor>x\<rfloor>; d = x - of_int f
      in if d < 1 / 2 then f else if 1 / 2 < d then f + 1 else if even f then f else f + 1)"

definition two_to :: "int \<Rightarrow> real" where
  "two_to k = (if 0 \<le> k then 2 ^ nat k else 1 / 2 ^ nat (- k))"

definition double_exponent :: "real \<Rightarrow> int" where
  "double_exponent x = max \<lfloor>log 2 \<bar>x\<bar>\<rfloor> (- 1022)"

definition round_double :: "real \<Rightarrow> real" where
  "round_double x =
     (if x = 0 then 0
      else let ulp = two_to (double_exponent x - 52)
           in of_int (round_half_even (x / ulp)) * ulp)"

text \<open>\<open>x + y\<close> and \<open>x - y\<close> on floats, and the float of an integer.\<close>

definition fadd :: "real \<Rightarrow> real \<Rightarrow> real" where
  "fadd x y = round_double (x + y)"

definition fsub :: "real \<Rightarrow> real \<Rightarrow> real" where
  "fsub x y = round_double (x - y)"

definition float_of_int :: "int \<Rightarrow> real" where
  "float_of_int n = round_double (of_int n)"

text \<open>
  \<open>round(x, n)\<close> on a float: the exact value of \<open>x\<close> is rounded to \<open>n\<close> decimal places,
  a tie going to the even neighbour, and the result is the double nearest to that
  decimal number.
\<close>

definition py_round :: "real \<Rightarrow> nat \<Rightarrow> real" where
  "py_round x ndigits =
     round_double (of_int (round_half_even (x * 10 ^ ndigits)) / 10 ^ ndigits)"

text \<open>
  The distance is the exception. \<open>math.sin\<close>, \<open>math.cos\<close> and \<open>math.asin\<close> are the
  functions of the C library, whose last digits no standard fixes, so the distance of
  the model is the exact value of the formula; the double the program computes
  differs from it in its last places. \<open>math.sqrt\<close> raises on a negative number and
  \<open>math.asin\<close> outside the interval from -1 to 1; for the exact value the number \<open>a\<close>
  below lies between 0 and 1 whatever the coordinates are (lemma \<open>haversine_domain\<close>).
\<close>


definition radians :: "real \<Rightarrow> real" where
  "radians deg = deg * pi / 180"

definition haversine_distance :: "real \<Rightarrow> real \<Rightarrow> real \<Rightarrow> real \<Rightarrow> real" where
  "haversine_distance lat1 lon1 lat2 lon2 =
     (let lat1_rad = radians lat1;
          lon1_rad = radians lon1;
          lat2_rad = radians lat2;
          lon2_rad = radians lon2;
          dlat = lat2_rad - lat1_rad;
          dlon = lon2_rad - lon1_rad;
          a = (sin (dlat / 2))\<^sup>2 + cos lat1_rad * cos lat2_rad * (sin (dlon / 2))\<^sup>2;
          c = 2 * arcsin (sqrt a);
          radius = 6371
      in radius * c)"


section \<open>Retrieval: \<open>search_accommodations\<close>\<close>

text \<open>
  A raw record of the map service is a dictionary; the keys the program reads are
  optional fields here. \<open>el_tags\<close> is the record's own dictionary of tags.
\<close>

record osm_element =
  el_id :: "int option"
  el_type :: "pystr option"
  el_lat :: "real option"
  el_lon :: "real option"
  el_tags :: "(pystr \<rightharpoonup> pystr) option"

text \<open>
  What one HTTP call can do. An exception is one of the three classes the program
  tells apart, with its text \<open>str(e)\<close>. A response carries its status code and what
  \<open>response.json()\<close> gives: an exception, or a dictionary, of which only the value
  under \<open>'elements'\<close> (if the key is there) is read.
\<close>

datatype exn = Timeout | RequestException pystr | OtherException pystr

datatype json = JsonRaises exn | JsonDict "osm_element list option"

datatype http_outcome = Raised exn | Response int json

text \<open>What the program does to the outside world, in order.\<close>

datatype event = Post pystr | Sleep nat

text \<open>
  The query sent to every server. Its text is not modelled, only the values it is
  built from.
\<close>

record overpass_query =
  q_tourism_types :: "pystr list"
  q_radius :: int
  q_lat :: real
  q_lon :: real

definition build_query :: "search_request \<Rightarrow> overpass_query" where
  "build_query search_request =
     (let lat = req_lat search_request;
          lon = req_lon search_request;
          acc_type = req_type search_request;
          radius = req_radius search_request;
          tourism_types = [acc_type, str ''hotel'', str ''guest_house'', str ''apartment'', str ''hostel'']
      in \<lparr>q_tourism_types = tourism_types, q_radius = radius, q_lat = lat, q_lon = lon\<rparr>)"

definition overpass_servers :: "pystr list" where
  "overpass_servers =
     [str ''https://overpass-api.de/api/interpreter'',
      str ''https://overpass.kumi.systems/api/interpreter'',
      str ''https://overpass.openstreetmap.ru/api/interpreter'']"

text \<open>
  \<open>server_url.split('/')[2]\<close>. Each of the three servers has this third piece (lemma
  \<open>overpass_servers_have_host\<close>), so the index is never out of range.
\<close>

definition server_host :: "pystr \<Rightarrow> pystr" where
  "server_host server_url = split_at 47 [] server_url ! 2"

text \<open>The three \<open>except\<close> clauses: the reason recorded for an exception.\<close>

fun except_reason :: "pystr \<Rightarrow> exn \<Rightarrow> pystr" where
  "except_reason server_url Timeout = str ''Server '' @ server_host server_url @ str '' timeout''"
| "except_reason server_url (RequestException e) =
     str ''L'' @ [7895] @ str ''i k'' @ [7871] @ str ''t n'' @ [7889] @ str ''i '' @
     server_host server_url @ str '': '' @ e"
| "except_reason server_url (OtherException e) =
     str ''L'' @ [7895] @ str ''i kh'' @ [244] @ str ''ng x'' @ [225] @ str ''c '' @ [273, 7883] @
     str ''nh: '' @ e"

definition no_result_reason :: "pystr \<Rightarrow> pystr" where
  "no_result_reason server_url =
     str ''Server '' @ server_host server_url @ str '' kh'' @ [244] @ str ''ng tr'' @ [7843] @
     str '' v'' @ [7873] @ str '' k'' @ [7871] @ str ''t qu'' @ [7843]"

definition overloaded_reason :: "pystr \<Rightarrow> int \<Rightarrow> pystr" where
  "overloaded_reason server_url status_code =
     str ''Server '' @ server_host server_url @ str '' qu'' @ [225] @ str '' t'' @ [7843] @
     str ''i (HTTP '' @ str_of_int status_code @ str '')''"

definition http_error_reason :: "pystr \<Rightarrow> int \<Rightarrow> pystr" where
  "http_error_reason server_url status_code =
     str ''Server '' @ server_host server_url @ str '' tr'' @ [7843] @ str '' v'' @ [7873] @
     str '' l'' @ [7895] @ str ''i HTTP '' @ str_of_int status_code"

definition exhausted_message :: "pystr option \<Rightarrow> pystr" where
  "exhausted_message last_error =
     str ''Kh'' @ [244] @ str ''ng th'' @ [7875] @ str '' k'' @ [7871] @ str ''t n'' @ [7889] @
     str ''i Overpass API. L'' @ [7895] @ str ''i cu'' @ [7889] @ str ''i: '' @
     (case last_error of None \<Rightarrow> str ''None'' | Some e \<Rightarrow> e)"

type_synonym search_result = "osm_element list option \<times> pystr option"

text \<open>
  One pass through the body of the loop over the servers: either the records are found
  and returned, or a reason is recorded and the loop goes on, after the events given
  (the pause of an overloaded server). \<open>post\<close> is the network: what posting the query
  to a server does.
\<close>

datatype attempt = Found "osm_element list" | Failure pystr "event list"

definition query_server ::
  "(pystr \<Rightarrow> overpass_query \<Rightarrow> http_outcome) \<Rightarrow> overpass_query \<Rightarrow> pystr \<Rightarrow> attempt" where
  "query_server post query server_url =
     (case post server_url query of
        Raised e \<Rightarrow> Failure (except_reason server_url e) []
      | Response status_code body \<Rightarrow>
          if status_code = 200 then
            (case body of
               JsonRaises e \<Rightarrow> Failure (except_reason server_url e) []
             | JsonDict None \<Rightarrow> Failure (no_result_reason server_url) []
             | JsonDict (Some elements) \<Rightarrow>
                 if length elements > 0 then Found elements
                 else Failure (no_result_reason server_url) [])
          else if status_code = 504 \<or> status_code = 429 then
            Failure (overloaded_reason server_url status_code) [Sleep 2]
          else Failure (http_error_reason server_url status_code) [])"

text \<open>The loop; its state is \<open>last_error\<close> and the events so far.\<close>

fun try_servers ::
  "(pystr \<Rightarrow> overpass_query \<Rightarrow> http_outcome) \<Rightarrow> overpass_query \<Rightarrow> pystr list \<Rightarrow>
   pystr option \<Rightarrow> event list \<Rightarrow> search_result \<times> event list" where
  "try_servers post query [] last_error events =
     ((None, Some (exhausted_message last_error)), events)"
| "try_servers post query (server_url # servers) last_error events =
     (case query_server post query server_url of
        Found elements \<Rightarrow> ((Some elements, None), events @ [Post server_url])
      | Failure reason pause \<Rightarrow>
          try_servers post query servers (Some reason) (events @ Post server_url # pause))"

definition search_accommodations ::
  "(pystr \<Rightarrow> overpass_query \<Rightarrow> http_outcome) \<Rightarrow> search_request \<Rightarrow> search_result \<times> event list" where
  "search_accommodations post search_request =
     try_servers post (build_query search_request) overpass_servers None []"

text \<open>The servers posted to, in order.\<close>

fun posted :: "event list \<Rightarrow> pystr list" where
  "posted [] = []"
| "posted (Post server_url # events) = server_url # posted events"
| "posted (Sleep n # events) = posted events"


section \<open>Retrieval: \<open>search_accommodations_nominatim_fallback\<close>\<close>

text \<open>
  One result of the place search is a dictionary with optional keys. For the keys the
  program converts, the field holds what the conversion (\<open>int(v)\<close>, \<open>float(v)\<close>) gives on
  the key's value: a number, or an exception with its text.
\<close>

datatype 'a converted = Converted 'a | ConversionError pystr

record nominatim_item =
  item_place_id :: "int converted option"
  item_lat :: "real converted option"
  item_lon :: "real converted option"
  item_display_name :: "pystr option"

datatype nominatim_json = NominatimJsonRaises pystr | NominatimJson "nominatim_item list"

datatype nominatim_outcome = NominatimRaised pystr | NominatimResponse int nominatim_json

definition fallback_element :: "int \<Rightarrow> real \<Rightarrow> real \<Rightarrow> nominatim_item \<Rightarrow> osm_element" where
  "fallback_element place_id lat lon item =
     \<lparr>el_id = Some place_id, el_type = Some (str ''node''), el_lat = Some lat, el_lon = Some lon,
      el_tags = Some [str ''name'' \<mapsto> (case item_display_name item of None \<Rightarrow> str ''Unnamed'' | Some n \<Rightarrow> n),
                      str ''tourism'' \<mapsto> str ''hotel'']\<rparr>"

text \<open>\<open>int(item.get('place_id', 0))\<close>: a missing place id is 0.\<close>

definition int_place_id :: "nominatim_item \<Rightarrow> int converted" where
  "int_place_id item = (case item_place_id item of None \<Rightarrow> Converted 0 | Some p \<Rightarrow> p)"

text \<open>
  The loop over the results; \<open>elements\<close> is the list built so far. \<open>Inl e\<close> is an
  exception raised by a conversion, which leaves the loop. The dictionary literal
  converts the place id first, then the latitude, then the longitude.
\<close>

fun convert_items :: "nominatim_item list \<Rightarrow> osm_element list \<Rightarrow> pystr + osm_element list" where
  "convert_items [] elements = Inr elements"
| "convert_items (item # data) elements =
     (case (item_lat item, item_lon item) of
        (Some lat, Some lon) \<Rightarrow>
          (case int_place_id item of
             ConversionError e \<Rightarrow> Inl e
           | Converted place_id \<Rightarrow>
               (case lat of
                  ConversionError e \<Rightarrow> Inl e
                | Converted la \<Rightarrow>
                    (case lon of
                       ConversionError e \<Rightarrow> Inl e
                     | Converted lo \<Rightarrow>
                         convert_items data (elements @ [fallback_element place_id la lo item]))))
      | _ \<Rightarrow> convert_items data elements)"

definition fallback_exception :: "pystr \<Rightarrow> search_result" where
  "fallback_exception e = (None, Some (str ''L'' @ [7895] @ str ''i Nominatim fallback: '' @ e))"

text \<open>\<open>get\<close> is the network: what the search for a query text does.\<close>

definition search_accommodations_nominatim_fallback ::
  "(pystr \<Rightarrow> nominatim_outcome) \<Rightarrow> search_request \<Rightarrow> search_result" where
  "search_accommodations_nominatim_fallback get search_request =
     (let location_name = req_location_name search_request in
      case get (str ''hotel '' @ location_name) of
        NominatimRaised e \<Rightarrow> fallback_exception e
      | NominatimResponse status_code body \<Rightarrow>
          if status_code \<noteq> 200 then
            (None, Some (str ''Nominatim fallback th'' @ [7845] @ str ''t b'' @ [7841] @
                         str ''i: HTTP '' @ str_of_int status_code))
          else
            (case body of
               NominatimJsonRaises e \<Rightarrow> fallback_exception e
             | NominatimJson data \<Rightarrow>
                 if data = [] then
                   (None, Some (str ''Kh'' @ [244] @ str ''ng t'' @ [236] @ str ''m th'' @ [7845] @
                                str ''y k'' @ [7871] @ str ''t qu'' @ [7843]))
                 else
                   (case convert_items data [] of
                      Inl e \<Rightarrow> fallback_exception e
                    | Inr elements \<Rightarrow> (Some elements, None))))"


section \<open>Normalisation: \<open>normalize_osm_data\<close>\<close>

text \<open>
  An accommodation is a dictionary with fixed keys. \<open>acc_rank\<close> is the key \<open>'rank'\<close>,
  absent until the ranking adds it.
\<close>

record accommodation =
  acc_id :: int
  acc_name :: pystr
  acc_location :: "real \<times> real"
  acc_type :: pystr
  acc_tags :: "pystr list"
  acc_score :: real
  acc_distance :: real
  acc_source :: pystr
  acc_rank :: "nat option"

definition element_name :: "(pystr \<rightharpoonup> pystr) \<Rightarrow> pystr" where
  "element_name tags = dict_get tags (str ''name'') (dict_get tags (str ''addr:street'') (str ''Unnamed''))"

definition build_accommodation ::
  "osm_element \<Rightarrow> (pystr \<rightharpoonup> pystr) \<Rightarrow> pystr \<Rightarrow> real \<Rightarrow> real \<Rightarrow> accommodation" where
  "build_accommodation element tags name lat lon =
     (let tourism_type = dict_get tags (str ''tourism'') (str ''accommodation'');
          acc_tags = [tourism_type];
          acc_tags = (case tags (str ''amenity'') of None \<Rightarrow> acc_tags | Some v \<Rightarrow> acc_tags @ [v]);
          acc_tags = (case tags (str ''building'') of None \<Rightarrow> acc_tags | Some v \<Rightarrow> acc_tags @ [v])
      in \<lparr>acc_id = (case el_id element of None \<Rightarrow> 0 | Some i \<Rightarrow> i),
          acc_name = name,
          acc_location = (lat, lon),
          acc_type = tourism_type,
          acc_tags = acc_tags,
          acc_score = 0,
          acc_distance = 0,
          acc_source = str ''osm'',
          acc_rank = None\<rparr>)"

text \<open>The loop over the raw records, with its two variables.\<close>

fun normalize_loop ::
  "osm_element list \<Rightarrow> accommodation list \<Rightarrow> pystr set \<Rightarrow> accommodation list" where
  "normalize_loop [] accommodations seen_names = accommodations"
| "normalize_loop (element # osm_elements) accommodations seen_names =
     (case el_tags element of
        None \<Rightarrow> normalize_loop osm_elements accommodations seen_names
      | Some tags \<Rightarrow>
          let name = element_name tags in
          if name \<in> seen_names then normalize_loop osm_elements accommodations seen_names
          else
            (case (el_lat element, el_lon element) of
               (Some lat, Some lon) \<Rightarrow>
                 normalize_loop osm_elements
                   (accommodations @ [build_accommodation element tags name lat lon])
                   (insert name seen_names)
             | _ \<Rightarrow> normalize_loop osm_elements accommodations seen_names))"

definition normalize_osm_data :: "osm_element list \<Rightarrow> accommodation list" where
  "normalize_osm_data osm_elements = normalize_loop osm_elements [] {}"

text \<open>
  What one raw record becomes when the loop emits it; \<open>None\<close> for a record that has no
  tags or lacks a coordinate, which the loop never emits.
\<close>

definition emitted :: "osm_element \<Rightarrow> accommodation option" where
  "emitted element =
     (case (el_tags element, el_lat element, el_lon element) of
        (Some tags, Some lat, Some lon) \<Rightarrow>
          Some (build_accommodation element tags (element_name tags) lat lon)
      | _ \<Rightarrow> None)"

text \<open>The accommodations the loop appends, given the names seen so far.\<close>

fun emit_new :: "osm_element list \<Rightarrow> pystr set \<Rightarrow> accommodation list" where
  "emit_new [] seen_names = []"
| "emit_new (element # osm_elements) seen_names =
     (case emitted element of
        None \<Rightarrow> emit_new osm_elements seen_names
      | Some acc \<Rightarrow>
          if acc_name acc \<in> seen_names then emit_new osm_elements seen_names
          else acc # emit_new osm_elements (insert (acc_name acc) seen_names))"


section \<open>Filtering and ranking\<close>

text \<open>
  Both stages write into the dictionaries they are given and return the same
  dictionaries, so the accommodations live in a store and a list of accommodations is
  a list of references into it.
\<close>

type_synonym ref = nat

type_synonym store = "ref \<Rightarrow> accommodation"

definition distance_to :: "search_request \<Rightarrow> accommodation \<Rightarrow> real" where
  "distance_to search_request acc =
     (let center_lat = req_lat search_request;
          center_lon = req_lon search_request;
          (acc_lat, acc_lon) = acc_location acc
      in haversine_distance center_lat center_lon acc_lat acc_lon)"

fun filter_loop :: "search_request \<Rightarrow> ref list \<Rightarrow> ref list \<Rightarrow> store \<Rightarrow> ref list \<times> store" where
  "filter_loop search_request [] filtered h = (filtered, h)"
| "filter_loop search_request (acc # accommodations) filtered h =
     (let max_distance = real_of_int (req_radius search_request) / 1000;
          required_tags = req_tags search_request;
          distance = distance_to search_request (h acc)
      in if distance > max_distance then filter_loop search_request accommodations filtered h
         else if required_tags \<noteq> [] \<and>
                 \<not> list_ex (\<lambda>tag. tag \<in> set (acc_tags (h acc))) required_tags
         then filter_loop search_request accommodations filtered h
         else filter_loop search_request accommodations (filtered @ [acc])
                (h(acc := (h acc)\<lparr>acc_distance := distance\<rparr>)))"

definition filter_results :: "ref list \<Rightarrow> search_request \<Rightarrow> store \<Rightarrow> ref list \<times> store" where
  "filter_results accommodations search_request h = filter_loop search_request accommodations [] h"

text \<open>
  The test of the filter loop on one accommodation: it is kept when it is not farther
  than the radius and, if tags are required, has one of them.
\<close>

definition keeps :: "search_request \<Rightarrow> accommodation \<Rightarrow> bool" where
  "keeps search_request acc \<longleftrightarrow>
     distance_to search_request acc \<le> real_of_int (req_radius search_request) / 1000 \<and>
     (req_tags search_request \<noteq> [] \<longrightarrow> set (acc_tags acc) \<inter> set (req_tags search_request) \<noteq> {})"

text \<open>The body of the scoring loop: the value stored under \<open>'score'\<close>.\<close>

definition compute_score :: "search_request \<Rightarrow> accommodation \<Rightarrow> real" where
  "compute_score search_request acc =
     (let required_tags = req_tags search_request;
          score = 10;
          distance = acc_distance acc;
          proximity_score = max 0 (fsub 5 distance);
          score = fadd score proximity_score;
          tag_matches = card (set (acc_tags acc) \<inter> set required_tags);
          tag_score = int tag_matches * 2;
          score = fadd score (float_of_int tag_score);
          score = (if acc_type acc = req_type search_request then fadd score 3 else score);
          score = (if acc_name acc \<noteq> str ''Unnamed'' then fadd score 1 else score)
      in py_round score 2)"


fun score_loop :: "search_request \<Rightarrow> ref list \<Rightarrow> store \<Rightarrow> store" where
  "score_loop search_request [] h = h"
| "score_loop search_request (acc # accommodations) h =
     score_loop search_request accommodations
       (h(acc := (h acc)\<lparr>acc_score := compute_score search_request (h acc)\<rparr>))"

text \<open>\<open>for i, acc in enumerate(top_results): acc['rank'] = i + 1\<close>, from index \<open>i\<close> on.\<close>

fun rank_loop :: "nat \<Rightarrow> ref list \<Rightarrow> store \<Rightarrow> store" where
  "rank_loop i [] h = h"
| "rank_loop i (acc # top_results) h =
     rank_loop (i + 1) top_results (h(acc := (h acc)\<lparr>acc_rank := Some (i + 1)\<rparr>))"

text \<open>
  \<open>sorted(..., key=score, reverse=True)\<close> is a stable sort into descending order of the
  key: it is the stable ascending sort on the negated key.
\<close>

definition rank_results :: "ref list \<Rightarrow> search_request \<Rightarrow> store \<Rightarrow> ref list \<times> store" where
  "rank_results accommodations search_request h =
     (if accommodations = [] then ([], h)
      else
        let h1 = score_loop search_request accommodations h;
            sorted_accs = sort_key (\<lambda>x. - acc_score (h1 x)) accommodations;
            top_results = take 5 sorted_accs;
            h2 = rank_loop 0 top_results h1
        in (top_results, h2))"


section \<open>Sample data\<close>

text \<open>Concrete inputs on which the theorems below are instantiated.\<close>

definition sample_request :: search_request where
  "sample_request =
     \<lparr>req_location_name = str ''Vung Tau'', req_lat = 10, req_lon = 107,
      req_budget = str ''low'', req_type = str ''hotel'',
      req_tags = [str ''hotel'', str ''restaurant''], req_radius = 5000, req_max_results = 10\<rparr>"

definition sample_element :: "int \<Rightarrow> pystr \<Rightarrow> osm_element" where
  "sample_element i n =
     \<lparr>el_id = Some i, el_type = Some (str ''node''), el_lat = Some 10, el_lon = Some 107,
      el_tags = Some [str ''name'' \<mapsto> n, str ''tourism'' \<mapsto> str ''hotel'']\<rparr>"

definition third_mirror_answers :: "pystr \<Rightarrow> overpass_query \<Rightarrow> http_outcome" where
  "third_mirror_answers server_url query =
     (if server_url = overpass_servers ! 0 then Response 200 (JsonDict (Some []))
      else if server_url = overpass_servers ! 1 then Response 504 (JsonRaises (OtherException []))
      else Response 200 (JsonDict (Some [sample_element 1 (str ''A''), sample_element 2 (str ''B'')])))"

definition all_mirrors_fail :: "pystr \<Rightarrow> overpass_query \<Rightarrow> http_outcome" where
  "all_mirrors_fail server_url query =
     (if server_url = overpass_servers ! 0 then Raised Timeout
      else if server_url = overpass_servers ! 1 then Response 429 (JsonRaises (OtherException []))
      else Response 200 (JsonDict (Some [])))"

definition sample_elements :: "osm_element list" where
  "sample_elements =
     [(sample_element 1 (str ''A''))\<lparr>el_lat := None\<rparr>,
      sample_element 2 (str ''A''),
      sample_element 3 (str ''A''),
      (sample_element 4 (str ''B''))\<lparr>el_tags := None\<rparr>,
      (sample_element 5 [])\<lparr>el_tags := Some Map.empty\<rparr>,
      (sample_element 6 [])\<lparr>el_tags := Some [str ''tourism'' \<mapsto> str ''hostel'']\<rparr>]"

definition sample_item :: "real converted option \<Rightarrow> real converted option \<Rightarrow> nominatim_item" where
  "sample_item lat lon =
     \<lparr>item_place_id = Some (Converted 7), item_lat = lat, item_lon = lon,
      item_display_name = Some (str ''Hotel A, Vung Tau'')\<rparr>"

text \<open>A store of hotels that differ in their identifier and in the distance \<open>d\<close> gives them.\<close>

definition sample_hotels :: "(ref \<Rightarrow> real) \<Rightarrow> store" where
  "sample_hotels d r =
     \<lparr>acc_id = int r, acc_name = str ''A'', acc_location = (10, 107), acc_type = str ''hotel'',
      acc_tags = [str ''hotel'', str ''restaurant''], acc_score = 0, acc_distance = d r,
      acc_source = str ''osm'', acc_rank = None\<rparr>"

definition hotels_at_centre :: store where
  "hotels_at_centre = sample_hotels (\<lambda>r. 0)"


definition hotels_at_45_metres :: store where
  "hotels_at_45_metres = sample_hotels (\<lambda>r. round_double (45 / 1000))"


section \<open>Rounding to doubles\<close>

lemma two_to_powr: "two_to k = 2 powr real_of_int k"
  by (simp add: two_to_def powr_int)

lemma two_to_pos [simp]: "0 < two_to k"
  by (simp add: two_to_powr)

lemma two_to_add: "two_to (a + b) = two_to a * two_to b"
  by (simp add: two_to_powr powr_add)

lemma two_to_diff: "two_to (a - b) = two_to a / two_to b"
  by (simp add: two_to_powr powr_diff)

lemma two_to_mono: "a \<le> b \<Longrightarrow> two_to a \<le> two_to b"
  by (simp add: two_to_powr)

lemma two_to_nat: "0 \<le> k \<Longrightarrow> two_to k = of_int (2 ^ nat k)"
  by (simp add: two_to_def)

lemma two_to_of_nat: "two_to (int n) = 2 ^ n"
  by (simp add: two_to_def)

lemma two_to_shift: "2 ^ n * two_to k = two_to (k + int n)"
  by (simp add: two_to_add two_to_of_nat)

lemma round_half_even_of_int [simp]: "round_half_even (of_int m) = m"
  by (simp add: round_half_even_def)

lemma round_half_even_bounds: "\<lfloor>x\<rfloor> \<le> round_half_even x \<and> round_half_even x \<le> \<lfloor>x\<rfloor> + 1"
  by (simp add: round_half_even_def Let_def)

lemma floor_log_eq:
  assumes "0 < x"
  shows "\<lfloor>log 2 x\<rfloor> = e \<longleftrightarrow> two_to e \<le> x \<and> x < two_to (e + 1)"
  using floor_log_eq_powr_iff [of x 2 e] assms by (simp add: two_to_powr)

lemma floor_log_bounds:
  assumes "0 < x"
  shows "two_to \<lfloor>log 2 x\<rfloor> \<le> x \<and> x < two_to (\<lfloor>log 2 x\<rfloor> + 1)"
  using floor_log_eq [OF assms, of "\<lfloor>log 2 x\<rfloor>"] by simp

lemma round_double_grid:
  assumes "y = of_int m * two_to (double_exponent y - 52)"
  shows "round_double y = y"
proof (cases "y = 0")
  case True
  then show ?thesis by (simp add: round_double_def)
next
  case False
  have "y / two_to (double_exponent y - 52) = of_int m"
    using assms by (metis nonzero_mult_div_cancel_right two_to_pos less_irrefl)
  then show ?thesis
    using False assms by (simp add: round_double_def Let_def)
qed

lemma round_double_representable:
  assumes y: "y = of_int n * two_to k" and n: "\<bar>n\<bar> \<le> 2 ^ 53" and k: "- 1074 \<le> k"
  shows "round_double y = y"
proof (cases "y = 0")
  case True
  then show ?thesis by (simp add: round_double_def)
next
  case False
  define e0 where "e0 = \<lfloor>log 2 \<bar>y\<bar>\<rfloor>"
  define j where "j = double_exponent y - 52"
  have pos: "0 < \<bar>y\<bar>" using False by simp
  have absy: "\<bar>y\<bar> = of_int \<bar>n\<bar> * two_to k"
    using y by (simp add: abs_mult abs_of_pos)
  have lo: "two_to e0 \<le> \<bar>y\<bar>" and hi: "\<bar>y\<bar> < two_to (e0 + 1)"
    using floor_log_bounds [OF pos] by (simp_all add: e0_def)
  have j: "j = max e0 (- 1022) - 52"
    by (simp add: j_def double_exponent_def e0_def)
  have "of_int \<bar>n\<bar> \<le> (2::real) ^ 53"
    using n by (metis of_int_le_iff of_int_numeral of_int_power)
  then have "\<bar>y\<bar> \<le> 2 ^ 53 * two_to k"
    unfolding absy by (simp add: mult_right_mono)
  also have "\<dots> = two_to (k + 53)"
    using two_to_shift [of 53 k] by simp
  finally have "two_to e0 \<le> two_to (k + 53)" using lo by simp
  then have e0_le: "e0 \<le> k + 53"
    by (simp add: two_to_powr)
  have "\<exists>m. y = of_int m * two_to j"
  proof (cases "e0 = k + 53")
    case True
    then have "two_to (k + 53) \<le> of_int \<bar>n\<bar> * two_to k"
      using lo absy by simp
    then have "2 ^ 53 * two_to k \<le> of_int \<bar>n\<bar> * two_to k"
      using two_to_shift [of 53 k] by simp
    then have "(2::real) ^ 53 \<le> of_int \<bar>n\<bar>"
      by (simp add: mult_le_cancel_right)
    then have "(2::int) ^ 53 \<le> \<bar>n\<bar>"
      by (metis of_int_le_iff of_int_numeral of_int_power)
    with n have n53: "\<bar>n\<bar> = 2 ^ 53" by simp
    then have "even \<bar>n\<bar>" by simp
    then have even: "n = 2 * (n div 2)" by simp
    have jk: "j = k + 1" using True k by (simp add: j)
    have "y = of_int (n div 2) * two_to (k + 1)"
    proof -
      have "y = of_int (2 * (n div 2)) * two_to k" using y even by simp
      also have "\<dots> = of_int (n div 2) * (2 * two_to k)" by simp
      also have "2 * two_to k = two_to (k + 1)" using two_to_shift [of 1 k] by simp
      finally show ?thesis .
    qed
    then show ?thesis using jk by blast
  next
    case False
    with e0_le have "e0 \<le> k + 52" by simp
    with k have jk: "j \<le> k" by (simp add: j)
    have "two_to k = two_to (k - j) * two_to j"
      using two_to_add [of "k - j" j] by simp
    also have "two_to (k - j) = of_int (2 ^ nat (k - j))"
      using jk by (simp add: two_to_nat)
    finally have "y = of_int (n * 2 ^ nat (k - j)) * two_to j"
      using y by simp
    then show ?thesis by blast
  qed
  then obtain m where "y = of_int m * two_to (double_exponent y - 52)"
    unfolding j_def by blast
  then show ?thesis by (rule round_double_grid)
qed

lemma round_double_is_double:
  "\<exists>n k. round_double x = of_int n * two_to k \<and> \<bar>n\<bar> \<le> 2 ^ 53 \<and> - 1074 \<le> k"
proof (cases "x = 0")
  case True
  have "round_double x = of_int 0 * two_to 0" using True by (simp add: round_double_def)
  then show ?thesis by (intro exI [of _ 0]) simp
next
  case False
  define e0 where "e0 = \<lfloor>log 2 \<bar>x\<bar>\<rfloor>"
  define E where "E = double_exponent x"
  define z where "z = x / two_to (E - 52)"
  have pos: "0 < \<bar>x\<bar>" using False by simp
  have E: "E = max e0 (- 1022)" by (simp add: E_def double_exponent_def e0_def)
  have "\<bar>x\<bar> < two_to (e0 + 1)"
    using floor_log_bounds [OF pos] by (simp add: e0_def)
  also have "\<dots> \<le> two_to (E + 1)" by (rule two_to_mono) (simp add: E)
  also have "\<dots> = 2 ^ 53 * two_to (E - 52)"
    using two_to_shift [of 53 "E - 52"] by (simp add: add.commute)
  finally have "\<bar>z\<bar> < 2 ^ 53"
    by (simp add: z_def abs_divide pos_divide_less_eq)
  then have zb: "- (2 ^ 53) < z" "z < 2 ^ 53" by (simp_all add: abs_less_iff)
  have "\<lfloor>z\<rfloor> < 2 ^ 53" using zb(2) by (simp add: floor_less_iff)
  moreover have "- (2 ^ 53) \<le> \<lfloor>z\<rfloor>" using zb(1) by (simp add: le_floor_iff)
  ultimately have "\<bar>round_half_even z\<bar> \<le> 2 ^ 53"
    using round_half_even_bounds [of z] by linarith
  moreover have "round_double x = of_int (round_half_even z) * two_to (E - 52)"
    using False by (simp add: round_double_def Let_def z_def E_def)
  moreover have "- 1074 \<le> E - 52" by (simp add: E)
  ultimately show ?thesis by blast
qed

lemma round_double_idem [simp]: "round_double (round_double x) = round_double x"
  using round_double_is_double [of x] round_double_representable by blast

lemma round_double_of_int: "\<bar>n\<bar> \<le> 2 ^ 53 \<Longrightarrow> round_double (of_int n) = of_int n"
  using round_double_representable [of "of_int n" n 0] two_to_of_nat [of 0] by simp

lemma round_double_eval:
  assumes "two_to e \<le> \<bar>x\<bar>" and "\<bar>x\<bar> < two_to (e + 1)" and "- 1022 \<le> e"
  shows "round_double x = of_int (round_half_even (x / two_to (e - 52))) * two_to (e - 52)"
proof -
  have pos: "0 < \<bar>x\<bar>" using assms(1) two_to_pos [of e] by linarith
  then have "\<lfloor>log 2 \<bar>x\<bar>\<rfloor> = e" using assms(1,2) by (simp add: floor_log_eq)
  then have "double_exponent x = e" using assms(3) by (simp add: double_exponent_def)
  then show ?thesis using pos by (simp add: round_double_def Let_def)
qed

lemma round_double_numeral:
  "numeral w \<le> (2::int) ^ 53 \<Longrightarrow> round_double (numeral w) = numeral w"
  using round_double_of_int [of "numeral w"] by simp

lemma round_double_zero: "round_double 0 = 0"
  by (simp add: round_double_def)

lemma round_double_one: "round_double 1 = 1"
  using round_double_of_int [of 1] by simp

lemma fadd_zero: "fadd (fadd x y) 0 = fadd x y"
  by (simp add: fadd_def)

lemma fadd_zero_right: "fadd 10 0 = 10"
  by (simp add: fadd_def round_double_numeral)


section \<open>The distance\<close>

lemma sin_half_squared: "(sin (x / 2))\<^sup>2 = (1 - cos x) / (2::real)"
  using cos_double_sin [of "x / 2"] by simp

lemma cos_times_cos: "cos x * cos y = (cos (x - y) + cos (x + y)) / (2::real)"
  by (simp add: cos_add cos_diff)

lemma haversine_term_bounds:
  fixes p1 p2 dl :: real
  defines "a \<equiv> (sin ((p2 - p1) / 2))\<^sup>2 + cos p1 * cos p2 * (sin (dl / 2))\<^sup>2"
  shows "0 \<le> a \<and> a \<le> 1"
proof -
  define s where "s = (sin (dl / 2))\<^sup>2"
  define cd where "cd = cos (p2 - p1)"
  define cs where "cs = cos (p1 + p2)"
  have s: "0 \<le> s" "s \<le> 1"
    unfolding s_def using abs_sin_le_one [of "dl / 2"] by (simp_all add: abs_square_le_1)
  have cd: "- 1 \<le> cd" "cd \<le> 1" unfolding cd_def by simp_all
  have cs: "- 1 \<le> cs" "cs \<le> 1" unfolding cs_def by simp_all
  have cc: "cos p1 * cos p2 = (cd + cs) / 2"
    unfolding cd_def cs_def by (simp add: cos_add cos_diff)
  have hd: "(sin ((p2 - p1) / 2))\<^sup>2 = (1 - cd) / 2"
    unfolding cd_def by (rule sin_half_squared)
  have "a = (1 - cd) / 2 + (cd + cs) / 2 * s"
    unfolding a_def s_def cc hd by (rule refl)
  then have a: "2 * a = 1 - (1 - s) * cd + s * cs"
    by (simp add: field_simps)
  have 1: "(1 - s) * cd \<le> (1 - s) * 1" using s cd by (intro mult_left_mono) simp_all
  have 2: "s * (- 1) \<le> s * cs" using s cs by (intro mult_left_mono) simp_all
  have 3: "(1 - s) * (- 1) \<le> (1 - s) * cd" using s cd by (intro mult_left_mono) simp_all
  have 4: "s * cs \<le> s * 1" using s cs by (intro mult_left_mono) simp_all
  from a 1 2 3 4 show ?thesis by simp
qed

lemma haversine_domain:
  "0 \<le> (sin ((radians lat2 - radians lat1) / 2))\<^sup>2
         + cos (radians lat1) * cos (radians lat2) * (sin ((radians lon2 - radians lon1) / 2))\<^sup>2
   \<and> sqrt ((sin ((radians lat2 - radians lat1) / 2))\<^sup>2
         + cos (radians lat1) * cos (radians lat2) * (sin ((radians lon2 - radians lon1) / 2))\<^sup>2)
       \<le> 1"
  using haversine_term_bounds [of "radians lat2" "radians lat1" "radians lon2 - radians lon1"]
  by simp

lemma haversine_distance_same_point: "haversine_distance lat lon lat lon = 0"
  by (simp add: haversine_distance_def)


section \<open>The servers of \<open>search_accommodations\<close>\<close>

lemma overpass_servers_have_host: "\<forall>u \<in> set overpass_servers. 2 < length (split_at 47 [] u)"
  by (simp add: overpass_servers_def str_def)

lemma overpass_server_hosts:
  "map server_host overpass_servers =
     [str ''overpass-api.de'', str ''overpass.kumi.systems'', str ''overpass.openstreetmap.ru'']"
  by (simp add: overpass_servers_def str_def server_host_def)

lemma distinct_overpass_servers: "distinct overpass_servers"
  by (simp add: overpass_servers_def str_def)

lemma posted_append: "posted (xs @ ys) = posted xs @ posted ys"
  by (induction xs rule: posted.induct) simp_all

lemma query_server_Found_iff:
  "query_server post query u = Found es \<longleftrightarrow> post u query = Response 200 (JsonDict (Some es)) \<and> es \<noteq> []"
  by (auto simp: query_server_def split: http_outcome.splits json.splits option.splits if_splits)

lemma query_server_cases:
  "(\<exists>es. query_server post query u = Found es) \<or> (\<exists>r p. query_server post query u = Failure r p \<and> posted p = [])"
  by (auto simp: query_server_def split: http_outcome.splits json.splits option.splits if_splits)

lemma not_Found_Failure:
  assumes "\<forall>es. post u query = Response 200 (JsonDict (Some es)) \<longrightarrow> es = []"
  shows "\<exists>r p. query_server post query u = Failure r p \<and> posted p = []"
  using assms query_server_cases [of post query u] by (auto simp: query_server_Found_iff)

lemma try_servers_first_success:
  assumes "\<forall>u \<in> set before. \<forall>es. post u query = Response 200 (JsonDict (Some es)) \<longrightarrow> es = []"
      and "post server query = Response 200 (JsonDict (Some elements))" and "elements \<noteq> []"
  shows "fst (try_servers post query (before @ server # rest) last_error events) = (Some elements, None)
       \<and> posted (snd (try_servers post query (before @ server # rest) last_error events))
           = posted events @ before @ [server]"
  using assms(1)
proof (induction before arbitrary: last_error events)
  case Nil
  have "query_server post query server = Found elements"
    using assms(2,3) by (simp add: query_server_Found_iff)
  then show ?case by (simp add: posted_append)
next
  case (Cons u before)
  then obtain r p where f: "query_server post query u = Failure r p" "posted p = []"
    using not_Found_Failure [of post u query] by auto
  have "\<forall>u \<in> set before. \<forall>es. post u query = Response 200 (JsonDict (Some es)) \<longrightarrow> es = []"
    using Cons.prems by simp
  from Cons.IH [OF this, of "Some r" "events @ Post u # p"] f
  show ?case by (simp add: posted_append)
qed

lemma try_servers_exhausted:
  assumes "\<forall>u \<in> set servers. \<forall>es. post u query = Response 200 (JsonDict (Some es)) \<longrightarrow> es = []"
      and "servers \<noteq> []"
  shows "\<exists>r p. query_server post query (last servers) = Failure r p
          \<and> fst (try_servers post query servers last_error events) = (None, Some (exhausted_message (Some r)))"
  using assms
proof (induction servers arbitrary: last_error events)
  case Nil
  then show ?case by simp
next
  case (Cons u servers)
  then obtain r p where f: "query_server post query u = Failure r p"
    using not_Found_Failure [of post u query] by auto
  show ?case
  proof (cases "servers = []")
    case True
    with f show ?thesis by simp
  next
    case False
    have "\<forall>u \<in> set servers. \<forall>es. post u query = Response 200 (JsonDict (Some es)) \<longrightarrow> es = []"
      using Cons.prems by simp
    from Cons.IH [OF this False, of "Some r" "events @ Post u # p"] f False
    show ?thesis by simp
  qed
qed


section \<open>The loop of \<open>normalize_osm_data\<close>\<close>

lemma acc_name_build [simp]: "acc_name (build_accommodation element tags name lat lon) = name"
  by (simp add: build_accommodation_def Let_def)

lemma emitted_Some:
  "emitted e = Some a \<longleftrightarrow>
     (\<exists>tags lat lon. el_tags e = Some tags \<and> el_lat e = Some lat \<and> el_lon e = Some lon \<and>
        a = build_accommodation e tags (element_name tags) lat lon)"
  by (auto simp: emitted_def split: option.splits)

lemma normalize_loop_step:
  "normalize_loop (e # es) accs seen =
     (case emitted e of
        None \<Rightarrow> normalize_loop es accs seen
      | Some a \<Rightarrow>
          if acc_name a \<in> seen then normalize_loop es accs seen
          else normalize_loop es (accs @ [a]) (insert (acc_name a) seen))"
  by (auto simp: emitted_def Let_def split: option.splits)

lemma normalize_loop_emit_new: "normalize_loop es accs seen = accs @ emit_new es seen"
proof (induction es arbitrary: accs seen)
  case Nil
  then show ?case by simp
next
  case (Cons e es)
  show ?case
    unfolding normalize_loop_step by (simp add: Cons.IH split: option.splits)
qed

lemma emit_new_fresh: "a \<in> set (emit_new es seen) \<Longrightarrow> acc_name a \<notin> seen"
  by (induction es arbitrary: seen) (auto split: option.splits if_splits)

lemma emit_new_distinct: "distinct (map acc_name (emit_new es seen))"
  by (induction es arbitrary: seen) (auto split: option.splits dest: emit_new_fresh)

lemma emit_new_first:
  "a \<in> set (emit_new es seen) \<Longrightarrow>
     \<exists>e. find (\<lambda>e. map_option acc_name (emitted e) = Some (acc_name a)) es = Some e \<and> emitted e = Some a"
proof (induction es arbitrary: seen)
  case Nil
  then show ?case by simp
next
  case (Cons e es)
  show ?case
  proof (cases "emitted e")
    case None
    with Cons show ?thesis by simp
  next
    case (Some a0)
    show ?thesis
    proof (cases "acc_name a0 \<in> seen")
      case True
      with Some Cons.prems have in_rest: "a \<in> set (emit_new es seen)" by simp
      from emit_new_fresh [OF in_rest] True have "acc_name a \<noteq> acc_name a0" by auto
      with Some Cons.IH [OF in_rest] show ?thesis by simp
    next
      case False
      with Some Cons.prems
      consider "a = a0" | "a \<in> set (emit_new es (insert (acc_name a0) seen))" by auto
      then show ?thesis
      proof cases
        case 1
        with Some show ?thesis by simp
      next
        case 2
        from emit_new_fresh [OF 2] have "acc_name a \<noteq> acc_name a0" by auto
        with Some Cons.IH [OF 2] show ?thesis by simp
      qed
    qed
  qed
qed

lemma emit_new_covers:
  "e \<in> set es \<Longrightarrow> emitted e = Some a \<Longrightarrow> acc_name a \<in> seen \<union> acc_name ` set (emit_new es seen)"
proof (induction es arbitrary: seen)
  case Nil
  then show ?case by simp
next
  case (Cons e0 es)
  show ?case
  proof (cases "e = e0")
    case True
    with Cons.prems show ?thesis by auto
  next
    case False
    with Cons.prems have "e \<in> set es" by simp
    from Cons.IH [OF this Cons.prems(2)] show ?thesis
      by (auto split: option.splits)
  qed
qed

lemma sample_elements_normalized:
  "map acc_id (normalize_osm_data sample_elements) = [2, 5]
   \<and> map acc_name (normalize_osm_data sample_elements) = [str ''A'', str ''Unnamed'']"
  by (simp add: normalize_osm_data_def sample_elements_def sample_element_def element_name_def
      dict_get_def build_accommodation_def Let_def str_def)


section \<open>The loop of the fallback\<close>

lemma convert_items_all:
  assumes "\<forall>item \<in> set data. item_lat item \<noteq> None \<and> item_lon item \<noteq> None \<longrightarrow>
             (\<exists>place_id la lo. int_place_id item = Converted place_id
                \<and> item_lat item = Some (Converted la) \<and> item_lon item = Some (Converted lo))"
  shows "\<exists>new. convert_items data elements = Inr (elements @ new)
           \<and> list_all2 (\<lambda>item e. \<exists>place_id la lo. int_place_id item = Converted place_id
                \<and> item_lat item = Some (Converted la) \<and> item_lon item = Some (Converted lo)
                \<and> e = fallback_element place_id la lo item)
               (filter (\<lambda>item. item_lat item \<noteq> None \<and> item_lon item \<noteq> None) data) new"
  using assms
proof (induction data arbitrary: elements)
  case Nil
  then show ?case by simp
next
  case (Cons item data)
  then have rest: "\<forall>item \<in> set data. item_lat item \<noteq> None \<and> item_lon item \<noteq> None \<longrightarrow>
             (\<exists>place_id la lo. int_place_id item = Converted place_id
                \<and> item_lat item = Some (Converted la) \<and> item_lon item = Some (Converted lo))"
    by simp
  show ?case
  proof (cases "item_lat item \<noteq> None \<and> item_lon item \<noteq> None")
    case True
    with Cons.prems obtain place_id la lo where
      c: "int_place_id item = Converted place_id" "item_lat item = Some (Converted la)"
         "item_lon item = Some (Converted lo)"
      by auto
    from Cons.IH [OF rest, of "elements @ [fallback_element place_id la lo item]"]
    obtain new where
      n: "convert_items data (elements @ [fallback_element place_id la lo item])
            = Inr ((elements @ [fallback_element place_id la lo item]) @ new)"
         "list_all2 (\<lambda>item e. \<exists>place_id la lo. int_place_id item = Converted place_id
                \<and> item_lat item = Some (Converted la) \<and> item_lon item = Some (Converted lo)
                \<and> e = fallback_element place_id la lo item)
               (filter (\<lambda>item. item_lat item \<noteq> None \<and> item_lon item \<noteq> None) data) new"
      by blast
    show ?thesis
      by (rule exI [of _ "fallback_element place_id la lo item # new"]) (use c n in simp)
  next
    case False
    from Cons.IH [OF rest, of elements] False show ?thesis
      by (auto split: option.splits)
  qed
qed


section \<open>The loop of \<open>filter_results\<close>\<close>

lemma distance_to_update [simp]:
  "distance_to req (acc\<lparr>acc_distance := d\<rparr>) = distance_to req acc"
  by (simp add: distance_to_def)

lemma keeps_update [simp]: "keeps req (acc\<lparr>acc_distance := d\<rparr>) = keeps req acc"
  by (simp add: keeps_def)

lemma list_ex_tags: "list_ex (\<lambda>tag. tag \<in> set ts) rs \<longleftrightarrow> set ts \<inter> set rs \<noteq> {}"
  by (auto simp: list_ex_iff)

lemma filter_keeps_update:
  "filter (\<lambda>r. keeps req ((h(a := (h a)\<lparr>acc_distance := d\<rparr>)) r)) accs = filter (\<lambda>r. keeps req (h r)) accs"
  by (rule filter_cong) auto

lemma filter_loop_step:
  "filter_loop req (a # accs) filtered h =
     (if keeps req (h a)
      then filter_loop req accs (filtered @ [a])
             (h(a := (h a)\<lparr>acc_distance := distance_to req (h a)\<rparr>))
      else filter_loop req accs filtered h)"
  by (auto simp: keeps_def list_ex_tags Let_def)

lemma filter_loop_fst:
  "fst (filter_loop req accs filtered h) = filtered @ filter (\<lambda>r. keeps req (h r)) accs"
proof (induction accs arbitrary: filtered h)
  case Nil
  then show ?case by simp
next
  case (Cons a accs)
  show ?case
    unfolding filter_loop_step
    using filter_keeps_update [of req h a "distance_to req (h a)" accs]
    by (simp add: Cons.IH)
qed

lemma filter_loop_snd:
  "snd (filter_loop req accs filtered h) r =
     (if r \<in> set accs \<and> keeps req (h r) then (h r)\<lparr>acc_distance := distance_to req (h r)\<rparr> else h r)"
proof (induction accs arbitrary: filtered h)
  case Nil
  then show ?case by simp
next
  case (Cons a accs)
  show ?case
    unfolding filter_loop_step
    by (simp add: Cons.IH)
qed

lemma filter_loop_max_results:
  "filter_loop (req\<lparr>req_max_results := m\<rparr>) accs filtered h = filter_loop req accs filtered h"
  by (induction accs arbitrary: filtered h) (simp_all add: distance_to_def Let_def)


section \<open>The loops of \<open>rank_results\<close>\<close>

lemma compute_score_update [simp]:
  "compute_score req (acc\<lparr>acc_score := s\<rparr>) = compute_score req acc"
  by (simp add: compute_score_def)

lemma score_loop_apply:
  "score_loop req accs h r =
     (if r \<in> set accs then (h r)\<lparr>acc_score := compute_score req (h r)\<rparr> else h r)"
  by (induction accs arbitrary: h) auto

lemma score_loop_max_results:
  "score_loop (req\<lparr>req_max_results := m\<rparr>) accs h = score_loop req accs h"
  by (induction accs arbitrary: h) (simp_all add: compute_score_def)

lemma rank_loop_outside: "r \<notin> set rs \<Longrightarrow> rank_loop i rs h r = h r"
  by (induction rs arbitrary: i h) auto

lemma rank_loop_frame: "(rank_loop i rs h r)\<lparr>acc_rank := x\<rparr> = (h r)\<lparr>acc_rank := x\<rparr>"
  by (induction rs arbitrary: i h) auto

lemma rank_loop_score: "acc_score (rank_loop i rs h r) = acc_score (h r)"
proof -
  have "acc_score ((rank_loop i rs h r)\<lparr>acc_rank := None\<rparr>) = acc_score ((h r)\<lparr>acc_rank := None\<rparr>)"
    by (simp only: rank_loop_frame)
  then show ?thesis by simp
qed

lemma rank_loop_inside: "r \<in> set rs \<Longrightarrow> acc_rank (rank_loop i rs h r) \<noteq> None"
proof (induction rs arbitrary: i h)
  case Nil
  then show ?case by simp
next
  case (Cons a rs)
  then show ?case by (cases "r \<in> set rs") (auto simp: rank_loop_outside)
qed




section \<open>Sorting into descending order\<close>







section \<open>The result of \<open>rank_results\<close>\<close>


lemma rank_results_fst:
  "fst (rank_results accs req h) =
     take 5 (sort_key (\<lambda>x. - acc_score (score_loop req accs h x)) accs)"
  by (simp add: rank_results_def Let_def)

lemma rank_results_snd:
  "snd (rank_results accs req h) =
     rank_loop 0 (fst (rank_results accs req h)) (score_loop req accs h)"
  by (simp add: rank_results_def Let_def)

lemma rank_results_score:
  "acc_score (snd (rank_results accs req h) r) = acc_score (score_loop req accs h r)"
  by (simp add: rank_results_snd rank_loop_score)

lemma sample_hotels_score:
  "compute_score sample_request (sample_hotels d r)
     = py_round (fadd (fadd (fadd (fadd 10 (max 0 (fsub 5 (d r)))) 4) 3) 1) 2"
  by (simp add: compute_score_def sample_request_def sample_hotels_def str_def
      float_of_int_def round_double_numeral)

lemma whole_scores:
  "py_round (fadd (fadd (fadd (fadd 10 (max 0 (fsub 5 0))) 4) 3) 1) 2 = 23"
  "py_round (fadd (fadd (fadd (fadd 10 (max 0 (fsub 5 1))) 4) 3) 1) 2 = 22"
  "py_round (fadd (fadd (fadd (fadd 10 (max 0 (fsub 5 2))) 4) 3) 1) 2 = 21"
  "py_round (fadd (fadd (fadd (fadd 10 (max 0 (fsub 5 3))) 4) 3) 1) 2 = 20"
  "py_round (fadd (fadd (fadd (fadd 10 (max 0 (fsub 5 4))) 4) 3) 1) 2 = 19"
  "py_round (fadd (fadd (fadd (fadd 10 (max 0 (fsub 5 5))) 4) 3) 1) 2 = 18"
  by (simp_all add: py_round_def fadd_def fsub_def round_double_numeral round_double_zero
      round_double_one round_half_even_def)






lemma sample_ranking_six:
  "fst (rank_results [0, 1, 2, 3, 4, 5] sample_request (sample_hotels real)) = [0, 1, 2, 3, 4]"
  by (simp add: rank_results_fst score_loop_apply sample_hotels_score whole_scores)


text \<open>The arithmetic of one score, step by step, for a hotel 45 metres away.\<close>

lemma double_steps:
  "round_double (45 / 1000) = 3242591731706757 / 72057594037927936"
  "fsub 5 (3242591731706757 / 72057594037927936) = 2789417019202601 / 562949953421312"
  "fadd 10 (2789417019202601 / 562949953421312) = 8418916553415721 / 562949953421312"
  "fadd (8418916553415721 / 562949953421312) 4 = 1333839545887621 / 70368744177664"
  "fadd (1333839545887621 / 70368744177664) 3 = 1544945778420613 / 70368744177664"
  "fadd (1544945778420613 / 70368744177664) 1 = 1615314522598277 / 70368744177664"
  "py_round (1615314522598277 / 70368744177664) 2 = 6459850715509555 / 281474976710656"
  "round_double (2295 / 100) = 6459850715509555 / 281474976710656"
proof -
  show "round_double (45 / 1000) = 3242591731706757 / 72057594037927936"
    by (subst round_double_eval [where e = "- 5"])
       (simp_all add: two_to_def round_half_even_def)
  show "fsub 5 (3242591731706757 / 72057594037927936) = 2789417019202601 / 562949953421312"
    unfolding fsub_def
    by (subst round_double_eval [where e = 2])
       (simp_all add: two_to_def round_half_even_def)
  show "fadd 10 (2789417019202601 / 562949953421312) = 8418916553415721 / 562949953421312"
    unfolding fadd_def
    by (subst round_double_eval [where e = 3])
       (simp_all add: two_to_def round_half_even_def)
  show "fadd (8418916553415721 / 562949953421312) 4 = 1333839545887621 / 70368744177664"
    unfolding fadd_def
    by (subst round_double_eval [where e = 4])
       (simp_all add: two_to_def round_half_even_def)
  show "fadd (1333839545887621 / 70368744177664) 3 = 1544945778420613 / 70368744177664"
    unfolding fadd_def
    by (subst round_double_eval [where e = 4])
       (simp_all add: two_to_def round_half_even_def)
  show "fadd (1544945778420613 / 70368744177664) 1 = 1615314522598277 / 70368744177664"
    unfolding fadd_def
    by (subst round_double_eval [where e = 4])
       (simp_all add: two_to_def round_half_even_def)
  show r: "round_double (2295 / 100) = 6459850715509555 / 281474976710656"
    by (subst round_double_eval [where e = 4])
       (simp_all add: two_to_def round_half_even_def)
  have "round_half_even (1615314522598277 / 70368744177664 * 10 ^ 2) = 2295"
    by (simp add: round_half_even_def)
  then show "py_round (1615314522598277 / 70368744177664) 2 = 6459850715509555 / 281474976710656"
    using r by (simp add: py_round_def)
qed


section \<open>Claims about \<open>normalize_filters\<close>\<close>

text \<open>
  C1. For the budget text "re" (7867 is its second letter), the type text "villa" and
  the ambiance text "yen tinh, gan bien, xyz" (written with its Vietnamese letters) the
  specification gives the tags quiet and beachfront. The program replaces the commas
  by spaces and splits at white space, so it looks up the five words "yen", "tinh",
  "gan", "bien" and "xyz" one by one. The vocabulary holds the two-word keys
  "yen tinh" and "gan bien", which a single word never equals: no tag is found, and
  the list of tags is empty.
\<close>

theorem normalize_filters_two_word_keys_unreachable:
  "normalize_filters (str ''r'' @ [7867]) (str ''villa'')
     (str ''y'' @ [234] @ str ''n t'' @ [297] @ str ''nh, g'' @ [7847] @ str ''n bi'' @ [7875] @
      str ''n, xyz'')
   = \<lparr>filter_budget = str ''low'', filter_type = str ''chalet'', filter_tags = []\<rparr>"
  by (simp add: normalize_filters_def dict_get_def budget_map_def type_map_def ambiance_map_def
      str_def py_split_def replace_char_def is_space_def lower_def lower_cp_def strip_def)


section \<open>Claims about \<open>search_accommodations\<close>\<close>

text \<open>
  C3. Split the list of servers at any server that answers with status 200 and at
  least one record, every server before it answering otherwise (an exception, another
  status, no record). Then the search returns that server's records as they are, with
  no error message; the servers posted to are those before it and itself, in order; no
  server after it is posted to.
\<close>

theorem search_accommodations_first_success:
  assumes "overpass_servers = before @ server # rest"
      and "\<forall>u \<in> set before. \<forall>es. post u (build_query req) = Response 200 (JsonDict (Some es)) \<longrightarrow> es = []"
      and "post server (build_query req) = Response 200 (JsonDict (Some elements))"
      and "elements \<noteq> []"
  shows "fst (search_accommodations post req) = (Some elements, None)
       \<and> posted (snd (search_accommodations post req)) = before @ [server]
       \<and> (\<forall>u \<in> set rest. u \<notin> set (posted (snd (search_accommodations post req))))"
proof -
  have "distinct (before @ server # rest)"
    using distinct_overpass_servers assms(1) by simp
  then have "\<forall>u \<in> set rest. u \<notin> set (before @ [server])" by auto
  with try_servers_first_success
         [where post = post and query = "build_query req" and before = before
            and server = server and elements = elements and rest = rest
            and last_error = None and events = "[]"]
       assms
  show ?thesis by (simp add: search_accommodations_def)
qed

theorem search_accommodations_first_success_witness:
  "fst (search_accommodations third_mirror_answers sample_request)
     = (Some [sample_element 1 (str ''A''), sample_element 2 (str ''B'')], None)
   \<and> posted (snd (search_accommodations third_mirror_answers sample_request)) = overpass_servers"
  using search_accommodations_first_success
    [of "[overpass_servers ! 0, overpass_servers ! 1]" "overpass_servers ! 2" "[]"
        third_mirror_answers sample_request
        "[sample_element 1 (str ''A''), sample_element 2 (str ''B'')]"]
  by (simp add: third_mirror_answers_def overpass_servers_def str_def)

text \<open>
  C6. When no server answers with status 200 and at least one record, the search
  returns no records and the message built from the reason recorded for the last
  server: the message ends with that reason. The reasons of the earlier servers are
  lost: with other answers from them (none a success with records) and the same answer
  from the last server, the result is the same.
\<close>

theorem search_accommodations_exhausted:
  assumes "\<forall>u \<in> set overpass_servers.
             \<forall>es. post u (build_query req) = Response 200 (JsonDict (Some es)) \<longrightarrow> es = []"
  shows "\<exists>reason pause.
           query_server post (build_query req) (last overpass_servers) = Failure reason pause
         \<and> fst (search_accommodations post req) = (None, Some (exhausted_message (Some reason)))
         \<and> suffix reason (exhausted_message (Some reason))
         \<and> (\<forall>post'.
              (\<forall>u \<in> set overpass_servers.
                 \<forall>es. post' u (build_query req) = Response 200 (JsonDict (Some es)) \<longrightarrow> es = [])
              \<and> post' (last overpass_servers) (build_query req)
                  = post (last overpass_servers) (build_query req)
              \<longrightarrow> fst (search_accommodations post' req) = fst (search_accommodations post req))"
proof -
  have ne: "overpass_servers \<noteq> []" by (simp add: overpass_servers_def)
  from try_servers_exhausted
         [where post = post and query = "build_query req" and servers = overpass_servers
            and last_error = None and events = "[]"]
       assms ne
  obtain reason pause where
    f: "query_server post (build_query req) (last overpass_servers) = Failure reason pause"
    and r: "fst (search_accommodations post req) = (None, Some (exhausted_message (Some reason)))"
    by (auto simp: search_accommodations_def)
  have s: "suffix reason (exhausted_message (Some reason))"
    by (simp add: exhausted_message_def suffix_def)
  have "fst (search_accommodations post' req) = fst (search_accommodations post req)"
    if a: "\<forall>u \<in> set overpass_servers.
             \<forall>es. post' u (build_query req) = Response 200 (JsonDict (Some es)) \<longrightarrow> es = []"
      and e: "post' (last overpass_servers) (build_query req)
                = post (last overpass_servers) (build_query req)" for post'
  proof -
    have "query_server post' (build_query req) (last overpass_servers) = Failure reason pause"
      using f e by (simp add: query_server_def)
    with try_servers_exhausted
           [where post = post' and query = "build_query req" and servers = overpass_servers
              and last_error = None and events = "[]"]
         a ne r
    show ?thesis by (auto simp: search_accommodations_def)
  qed
  with f r s show ?thesis by blast
qed

theorem search_accommodations_exhausted_witness:
  "fst (search_accommodations all_mirrors_fail sample_request)
     = (None, Some (exhausted_message (Some (no_result_reason (last overpass_servers)))))"
  using search_accommodations_exhausted [of all_mirrors_fail sample_request]
  by (auto simp: all_mirrors_fail_def overpass_servers_def str_def query_server_def)


section \<open>Claims about \<open>search_accommodations_nominatim_fallback\<close>\<close>

text \<open>
  C7, as the program has it. Take a response with status 200 and a non-empty list of
  results, in which every result that has both coordinates has a place id, a latitude
  and a longitude that convert to numbers. Then the fallback returns, with no error
  message, one record for each result that has both coordinates, in order: a result
  that lacks the latitude or the longitude is discarded. Each record has the converted
  place id and coordinates, the type node, the tourism tag hotel and as name the
  display name of the result, or Unnamed when it has none.
\<close>

theorem fallback_reshapes:
  assumes "get (str ''hotel '' @ req_location_name req) = NominatimResponse 200 (NominatimJson data)"
      and "data \<noteq> []"
      and "\<forall>item \<in> set data. item_lat item \<noteq> None \<and> item_lon item \<noteq> None \<longrightarrow>
             (\<exists>place_id la lo. int_place_id item = Converted place_id
                \<and> item_lat item = Some (Converted la) \<and> item_lon item = Some (Converted lo))"
  shows "\<exists>elements.
           search_accommodations_nominatim_fallback get req = (Some elements, None)
         \<and> list_all2
             (\<lambda>item e. \<exists>place_id la lo. int_place_id item = Converted place_id
                \<and> item_lat item = Some (Converted la) \<and> item_lon item = Some (Converted lo)
                \<and> e = \<lparr>el_id = Some place_id, el_type = Some (str ''node''),
                       el_lat = Some la, el_lon = Some lo,
                       el_tags = Some [str ''name'' \<mapsto>
                                         (case item_display_name item of
                                            None \<Rightarrow> str ''Unnamed'' | Some n \<Rightarrow> n),
                                       str ''tourism'' \<mapsto> str ''hotel'']\<rparr>)
             (filter (\<lambda>item. item_lat item \<noteq> None \<and> item_lon item \<noteq> None) data) elements"
proof -
  from convert_items_all [OF assms(3), of "[]"] obtain elements where
    "convert_items data [] = Inr elements"
    "list_all2 (\<lambda>item e. \<exists>place_id la lo. int_place_id item = Converted place_id
                \<and> item_lat item = Some (Converted la) \<and> item_lon item = Some (Converted lo)
                \<and> e = fallback_element place_id la lo item)
               (filter (\<lambda>item. item_lat item \<noteq> None \<and> item_lon item \<noteq> None) data) elements"
    by auto
  with assms(1,2) show ?thesis
    by (auto simp: search_accommodations_nominatim_fallback_def fallback_element_def)
qed

theorem fallback_reshapes_witness:
  "search_accommodations_nominatim_fallback
     (\<lambda>q. NominatimResponse 200
             (NominatimJson [sample_item None None,
                             sample_item (Some (Converted 10)) (Some (Converted 107))]))
     sample_request
   = (Some [\<lparr>el_id = Some 7, el_type = Some (str ''node''), el_lat = Some 10, el_lon = Some 107,
            el_tags = Some [str ''name'' \<mapsto> str ''Hotel A, Vung Tau'',
                            str ''tourism'' \<mapsto> str ''hotel'']\<rparr>], None)"
  using fallback_reshapes
    [where get = "\<lambda>q. NominatimResponse 200
                        (NominatimJson [sample_item None None,
                                        sample_item (Some (Converted 10)) (Some (Converted 107))])"
       and req = sample_request
       and data = "[sample_item None None, sample_item (Some (Converted 10)) (Some (Converted 107))]"]
  by (auto simp: sample_item_def int_place_id_def list_all2_Cons1)

text \<open>
  C7 in the words of the specification fails on two inputs. A result with a latitude and no longitude does not lack
  both coordinates, yet it is discarded. And when the latitude of a result does not
  convert, no result is reshaped: the whole call fails with the text of the exception,
  even though another result of the same response was well formed.
\<close>

theorem fallback_discards_counterexample:
  "search_accommodations_nominatim_fallback
     (\<lambda>q. NominatimResponse 200 (NominatimJson [sample_item (Some (Converted 10)) None]))
     sample_request
   = (Some [], None)
   \<and> search_accommodations_nominatim_fallback
       (\<lambda>q. NominatimResponse 200
               (NominatimJson [sample_item (Some (Converted 10)) (Some (Converted 107)),
                               sample_item (Some (ConversionError (str ''could not convert string to float'')))
                                 (Some (Converted 107))]))
       sample_request
     = fallback_exception (str ''could not convert string to float'')"
  by (simp add: search_accommodations_nominatim_fallback_def sample_item_def int_place_id_def)


section \<open>Claims about \<open>normalize_osm_data\<close>\<close>

text \<open>
  C8. The accommodations that come out have pairwise different names. Each of them is
  what the first record that has tags and both coordinates and resolves to its name
  becomes: a later record of the same name is not emitted, be the name given or the
  fallback Unnamed; a record without tags or without a coordinate is never emitted.
  Conversely the name of every record with tags and both coordinates is among the
  names that come out.
\<close>

theorem normalize_osm_data_distinct_names:
  "distinct (map acc_name (normalize_osm_data osm_elements))
   \<and> (\<forall>a \<in> set (normalize_osm_data osm_elements).
        \<exists>e. find (\<lambda>e. map_option acc_name (emitted e) = Some (acc_name a)) osm_elements = Some e
           \<and> emitted e = Some a
           \<and> el_tags e \<noteq> None \<and> el_lat e \<noteq> None \<and> el_lon e \<noteq> None)
   \<and> (\<forall>e \<in> set osm_elements. \<forall>a. emitted e = Some a \<longrightarrow>
        acc_name a \<in> acc_name ` set (normalize_osm_data osm_elements))"
proof -
  have eq: "normalize_osm_data osm_elements = emit_new osm_elements {}"
    by (simp add: normalize_osm_data_def normalize_loop_emit_new)
  have 1: "distinct (map acc_name (emit_new osm_elements {}))"
    by (rule emit_new_distinct)
  have 2: "\<exists>e. find (\<lambda>e. map_option acc_name (emitted e) = Some (acc_name a)) osm_elements = Some e
             \<and> emitted e = Some a
             \<and> el_tags e \<noteq> None \<and> el_lat e \<noteq> None \<and> el_lon e \<noteq> None"
    if "a \<in> set (emit_new osm_elements {})" for a
  proof -
    from emit_new_first [OF that] obtain e where
      e: "find (\<lambda>e. map_option acc_name (emitted e) = Some (acc_name a)) osm_elements = Some e"
         "emitted e = Some a"
      by blast
    from e(2) have "el_tags e \<noteq> None \<and> el_lat e \<noteq> None \<and> el_lon e \<noteq> None"
      by (auto simp: emitted_Some)
    with e show ?thesis by blast
  qed
  have 3: "acc_name a \<in> acc_name ` set (emit_new osm_elements {})"
    if "e \<in> set osm_elements" "emitted e = Some a" for e a
    using emit_new_covers [OF that, of "{}"] by simp
  from 1 2 3 show ?thesis unfolding eq by blast
qed

theorem normalize_osm_data_distinct_names_witness:
  "map acc_id (normalize_osm_data sample_elements) = [2, 5]
   \<and> map acc_name (normalize_osm_data sample_elements) = [str ''A'', str ''Unnamed'']
   \<and> distinct (map acc_name (normalize_osm_data sample_elements))"
  using normalize_osm_data_distinct_names [of sample_elements] sample_elements_normalized
  by simp


section \<open>Claims about \<open>rank_results\<close>\<close>

text \<open>
  C2. Every accommodation of a list given to the ranking gets the score 10, plus 5
  minus its distance when that is positive, plus 2 for every tag it shares with the
  request, plus 3 when its type is the requested one, plus 1 when its name is not
  Unnamed, rounded to two decimals; every sum and the difference are those of doubles,
  in this order. At distance 0, with the requested type, a name and two shared tags,
  the score is 23. For a hotel at the double nearest to 0.045 the score is the double
  nearest to 22.95.
\<close>

theorem rank_results_assigns_score:
  assumes "r \<in> set accommodations"
  shows "acc_score (snd (rank_results accommodations req h) r)
           = py_round
               (fadd
                  (fadd
                     (fadd (fadd 10 (max 0 (fsub 5 (acc_distance (h r)))))
                        (float_of_int (2 * int (card (set (acc_tags (h r)) \<inter> set (req_tags req))))))
                     (if acc_type (h r) = req_type req then 3 else 0))
                  (if acc_name (h r) \<noteq> str ''Unnamed'' then 1 else 0))
               2
       \<and> (acc_distance (h r) = 0 \<and> acc_type (h r) = req_type req
            \<and> acc_name (h r) \<noteq> str ''Unnamed''
            \<and> card (set (acc_tags (h r)) \<inter> set (req_tags req)) = 2
          \<longrightarrow> acc_score (snd (rank_results accommodations req h) r) = 23)"
proof -
  have stored: "acc_score (snd (rank_results accommodations req h) r) = compute_score req (h r)"
    using assms by (simp add: rank_results_score score_loop_apply)
  have formula: "compute_score req (h r)
           = py_round
               (fadd
                  (fadd
                     (fadd (fadd 10 (max 0 (fsub 5 (acc_distance (h r)))))
                        (float_of_int (2 * int (card (set (acc_tags (h r)) \<inter> set (req_tags req))))))
                     (if acc_type (h r) = req_type req then 3 else 0))
                  (if acc_name (h r) \<noteq> str ''Unnamed'' then 1 else 0))
               2"
    by (simp add: compute_score_def Let_def fadd_zero mult.commute)
  have "compute_score req (h r) = 23"
    if "acc_distance (h r) = 0" "acc_type (h r) = req_type req"
       "acc_name (h r) \<noteq> str ''Unnamed''"
       "card (set (acc_tags (h r)) \<inter> set (req_tags req)) = 2"
    unfolding formula using that whole_scores(1)
    by (simp add: float_of_int_def round_double_numeral)
  with stored formula show ?thesis by simp
qed

theorem rank_results_assigns_score_witness:
  "acc_score (snd (rank_results [0, 1] sample_request hotels_at_centre) 0) = 23
   \<and> acc_score (snd (rank_results [0] sample_request hotels_at_45_metres) 0)
       = round_double (2295 / 100)"
proof -
  have tags: "card (set (acc_tags (sample_hotels d 0)) \<inter> set (req_tags sample_request)) = 2" for d
    by (simp add: sample_hotels_def sample_request_def str_def)
  have centre: "acc_score (snd (rank_results [0, 1] sample_request hotels_at_centre) 0) = 23"
    using rank_results_assigns_score
      [where r = 0 and accommodations = "[0, 1]" and req = sample_request
         and h = hotels_at_centre]
      tags
    by (simp add: hotels_at_centre_def) (simp add: sample_hotels_def sample_request_def str_def)
  have "acc_score (snd (rank_results [0] sample_request hotels_at_45_metres) 0)
          = py_round (fadd (fadd (fadd (fadd 10 (max 0 (fsub 5 (round_double (45 / 1000))))) 4) 3) 1) 2"
    using rank_results_assigns_score
      [where r = 0 and accommodations = "[0]" and req = sample_request
         and h = hotels_at_45_metres]
      tags
    by (simp add: hotels_at_45_metres_def float_of_int_def round_double_numeral)
       (simp add: sample_hotels_def sample_request_def str_def)
  also have "\<dots> = round_double (2295 / 100)"
  proof -
    have m: "max (0::real) (2789417019202601 / 562949953421312)
               = 2789417019202601 / 562949953421312"
      by simp
    show ?thesis by (simp only: double_steps m)
  qed
  finally show ?thesis using centre by simp
qed




text \<open>
  C9. Changing \<open>max_results\<close> in the request changes neither what the filter returns
  and stores nor what the ranking returns and stores; the ranking returns five
  accommodations, or all of them when there are fewer, whatever the request says.
\<close>

theorem max_results_never_read:
  "filter_results accommodations (req\<lparr>req_max_results := m\<rparr>) h = filter_results accommodations req h
   \<and> rank_results accommodations (req\<lparr>req_max_results := m\<rparr>) h = rank_results accommodations req h
   \<and> length (fst (rank_results accommodations req h)) = min 5 (length accommodations)"
  by (auto simp: filter_results_def filter_loop_max_results rank_results_def
      score_loop_max_results Let_def)

text \<open>
  C10. For a non-empty list the ranking writes into the store it is given: every
  accommodation of the list has its score set, returned or not; the references
  returned, at most five, are references of the list; a rank is stored in the
  accommodations returned and in no other; apart from score and rank every
  accommodation is as before, and an accommodation outside the list is untouched.
\<close>

theorem rank_results_in_place:
  assumes "accommodations \<noteq> []"
  shows "let top_results = fst (rank_results accommodations req h);
             h' = snd (rank_results accommodations req h)
         in (\<forall>r \<in> set accommodations. acc_score (h' r) = compute_score req (h r))
          \<and> length top_results \<le> 5
          \<and> set top_results \<subseteq> set accommodations
          \<and> (\<forall>r \<in> set top_results. acc_rank (h' r) \<noteq> None)
          \<and> (\<forall>r. r \<notin> set top_results \<longrightarrow> acc_rank (h' r) = acc_rank (h r))
          \<and> (\<forall>r. (h' r)\<lparr>acc_score := acc_score (h r), acc_rank := acc_rank (h r)\<rparr> = h r)
          \<and> (\<forall>r. r \<notin> set accommodations \<longrightarrow> h' r = h r)"
proof -
  define top_results where "top_results = fst (rank_results accommodations req h)"
  define h1 where "h1 = score_loop req accommodations h"
  define h' where "h' = snd (rank_results accommodations req h)"
  have h': "h' = rank_loop 0 top_results h1"
    by (simp add: h'_def h1_def top_results_def rank_results_snd)
  have h1: "h1 r = (if r \<in> set accommodations then (h r)\<lparr>acc_score := compute_score req (h r)\<rparr> else h r)" for r
    by (simp add: h1_def score_loop_apply)
  have sub: "set top_results \<subseteq> set accommodations"
    unfolding top_results_def rank_results_fst
    by (metis set_sort set_take_subset)
  have 1: "\<forall>r \<in> set accommodations. acc_score (h' r) = compute_score req (h r)"
    by (simp add: h' rank_loop_score h1)
  have 2: "length top_results \<le> 5"
    by (simp add: top_results_def rank_results_fst)
  have 4: "\<forall>r \<in> set top_results. acc_rank (h' r) \<noteq> None"
    by (simp add: h' rank_loop_inside)
  have 5: "\<forall>r. r \<notin> set top_results \<longrightarrow> acc_rank (h' r) = acc_rank (h r)"
    by (simp add: h' rank_loop_outside h1)
  have frame: "(h' r)\<lparr>acc_rank := k\<rparr> = (h1 r)\<lparr>acc_rank := k\<rparr>" for r k
    unfolding h' by (rule rank_loop_frame)
  have 6: "(h' r)\<lparr>acc_score := acc_score (h r), acc_rank := acc_rank (h r)\<rparr> = h r" for r
  proof -
    have "(h' r)\<lparr>acc_score := acc_score (h r), acc_rank := acc_rank (h r)\<rparr>
            = ((h' r)\<lparr>acc_rank := acc_rank (h r)\<rparr>)\<lparr>acc_score := acc_score (h r)\<rparr>"
      by simp
    also have "\<dots> = ((h1 r)\<lparr>acc_rank := acc_rank (h r)\<rparr>)\<lparr>acc_score := acc_score (h r)\<rparr>"
      by (simp only: frame)
    also have "\<dots> = h r"
      by (simp add: h1)
    finally show ?thesis .
  qed
  have 7: "\<forall>r. r \<notin> set accommodations \<longrightarrow> h' r = h r"
  proof (intro allI impI)
    fix r assume out: "r \<notin> set accommodations"
    with sub have "r \<notin> set top_results" by blast
    with out show "h' r = h r" by (simp add: h' rank_loop_outside h1)
  qed
  from 1 2 sub 4 5 6 7 show ?thesis
    unfolding Let_def top_results_def [symmetric] h'_def [symmetric] by blast
qed

theorem rank_results_in_place_witness:
  "fst (rank_results [0, 1, 2, 3, 4, 5] sample_request (sample_hotels real)) = [0, 1, 2, 3, 4]
   \<and> acc_score (snd (rank_results [0, 1, 2, 3, 4, 5] sample_request (sample_hotels real)) 5) = 18
   \<and> acc_rank (snd (rank_results [0, 1, 2, 3, 4, 5] sample_request (sample_hotels real)) 5) = None
   \<and> acc_rank (snd (rank_results [0, 1, 2, 3, 4, 5] sample_request (sample_hotels real)) 4) \<noteq> None"
  using rank_results_in_place
    [where accommodations = "[0, 1, 2, 3, 4, 5]" and req = sample_request
       and h = "sample_hotels real"]
    sample_ranking_six
  by (simp add: Let_def sample_hotels_score whole_scores) (simp add: sample_hotels_def)

end
